theory Spec2Isabelle
  imports Complex_Main
begin

section \<open>Strings\<close>

text \<open>
  A Python \<open>str\<close> is a sequence of Unicode code points.  The page texts of
  \<open>groq_demo.py\<close> contain code points beyond Latin-1 and \<open>str.strip\<close> looks at
  code points, so a string is modelled as the list of its code points.
\<close>

type_synonym pystr = "nat list"

definition ascii :: "string \<Rightarrow> pystr" where
  "ascii s = map of_char s"

text \<open>A triple-quoted literal, given line by line; the lines are joined by U+000A.\<close>

fun join_lines :: "pystr list \<Rightarrow> pystr" where
  "join_lines [] = []"
| "join_lines [l] = l"
| "join_lines (l # ls) = l @ [10] @ join_lines ls"

text \<open>
  \<open>str.isspace\<close> for one code point, as CPython's \<open>_PyUnicode_IsWhitespace\<close> has it,
  and \<open>str.strip()\<close> without argument: leading and trailing whitespace removed.
\<close>

definition py_isspace :: "nat \<Rightarrow> bool" where
  "py_isspace c \<longleftrightarrow>
     (0x09 \<le> c \<and> c \<le> 0x0D) \<or> (0x1C \<le> c \<and> c \<le> 0x20) \<or> c = 0x85 \<or> c = 0xA0 \<or>
     c = 0x1680 \<or> (0x2000 \<le> c \<and> c \<le> 0x200A) \<or> c = 0x2028 \<or> c = 0x2029 \<or>
     c = 0x202F \<or> c = 0x205F \<or> c = 0x3000"

definition strip :: "pystr \<Rightarrow> pystr" where
  "strip s = rev (dropWhile py_isspace (rev (dropWhile py_isspace s)))"


section \<open>Exceptions, responses and the collaborators of the page\<close>

text \<open>
  A raised exception: whether it is an instance of \<open>Exception\<close> (what the handler of
  \<open>main\<close>, \<open>except Exception as e\<close>, tests; \<open>KeyboardInterrupt\<close>, \<open>SystemExit\<close> and
  \<open>GeneratorExit\<close> derive from \<open>BaseException\<close> only) and what \<open>str(e)\<close> does: it
  returns a text (\<open>Inr\<close>), or the \<open>__str__\<close> of the exception raises in turn (\<open>Inl\<close>).
\<close>

datatype py_exception =
  Py_exception (is_Exception: bool) (str_result: "py_exception + pystr")

datatype json =
    JNull
  | JBool bool
  | JInt int
  | JFloat real
  | JStr pystr
  | JList "json list"
  | JObj "(pystr \<times> json) list"

text \<open>The response object of \<open>GroqLLM.generate\<close>: the four attributes \<open>main\<close> reads.\<close>

record response =
  content :: pystr
  model :: pystr
  usage :: "(pystr \<times> json) list"
  metadata :: "(pystr \<times> json) list"

text \<open>
  Everything \<open>main\<close> calls outside the file, for one run of the script: the secrets store,
  the client class \<open>GroqLLM\<close> (constructor and the two methods used, on a handle of type
  \<open>'h\<close>), and the Streamlit input widgets, each a function of the arguments the script
  passes, returning the widget's current value.  A call of the secrets store or of the
  client either returns (\<open>Inr\<close>) or raises (\<open>Inl\<close>).  The display calls of Streamlit are
  taken not to raise.
\<close>

record 'h env =
  secrets_get :: "pystr \<Rightarrow> py_exception + pystr option"
  GroqLLM :: "pystr \<Rightarrow> py_exception + 'h"
  is_available :: "'h \<Rightarrow> py_exception + bool"
  generate :: "'h \<Rightarrow> pystr \<Rightarrow> py_exception + response"
  st_text_area :: "pystr \<Rightarrow> pystr \<Rightarrow> nat \<Rightarrow> pystr"
  st_button :: "pystr \<Rightarrow> pystr \<Rightarrow> bool"
  st_slider_float :: "pystr \<Rightarrow> real \<Rightarrow> real \<Rightarrow> real \<Rightarrow> real \<Rightarrow> real"
  st_slider_int :: "pystr \<Rightarrow> int \<Rightarrow> int \<Rightarrow> int \<Rightarrow> int \<Rightarrow> int"


section \<open>What a run of the script does\<close>

text \<open>
  A run is observed as the sequence of its display calls and of its calls to the secrets
  store and the client.  A display call is recorded with the containers it is made in
  (the \<open>with\<close> blocks around it, outermost first) and with its arguments.
\<close>

datatype place = Col1 | Col2 | In_spinner pystr | In_expander pystr

datatype element =
    Title pystr
  | Markdown pystr
  | Subheader pystr
  | Info pystr
  | Error pystr
  | Success pystr
  | Warning pystr
  | Text_area pystr pystr nat
  | Columns "nat list"
  | Button pystr pystr
  | Spinner pystr
  | Expander pystr
  | Write pystr
  | Json json
  | Slider_float pystr real real real real
  | Slider_int pystr int int int int
  | Code_block pystr pystr

datatype call =
    Secrets_get pystr
  | Construct pystr
  | Is_available
  | Generate pystr

datatype event = Render "place list" element | Invoke "place list" call

text \<open>
  The result of a run: the events in order, and the exception that leaves \<open>main\<close>, if one
  does.
\<close>

record outcome =
  trace :: "event list"
  escaped :: "py_exception option"

text \<open>
  A block of statements yields the events it made and the exception it raised, if any.
  \<open>emit\<close> puts events in front of a block, \<open>and_then\<close> runs a second block after a first
  one that did not raise.
\<close>

type_synonym block = "event list \<times> py_exception option"

definition emit :: "event list \<Rightarrow> block \<Rightarrow> block" where
  "emit evs b = (evs @ fst b, snd b)"

definition and_then :: "block \<Rightarrow> block \<Rightarrow> block" where
  "and_then a b = (case snd a of None \<Rightarrow> (fst a @ fst b, snd b) | Some e \<Rightarrow> a)"


section \<open>The texts of the page\<close>

definition title_text :: pystr where
  "title_text = [0x1F680] @ ascii '' Groq LLM Integration Demo''"

definition rule_text :: pystr where
  "rule_text = ascii ''---''"

definition secure_header :: pystr where
  "secure_header = [0x1F510] @ ascii '' Secure API Key Management''"

definition secure_info :: pystr where
  "secure_info = join_lines
    [[],
     ascii ''    This demo shows how the Groq API key is securely managed:'',
     ascii ''    '',
     ascii ''    1. **Local Development**: API key stored in `.streamlit/secrets.toml` (excluded from Git)'',
     ascii ''    2. **Production**: API key set in Streamlit Cloud secrets (not exposed in code)'',
     ascii ''    3. **Zero GitHub Exposure**: Keys never committed to version control'',
     ascii ''    '']"

definition key_name :: pystr where
  "key_name = ascii ''GROQ_API_KEY''"

definition key_missing_text :: pystr where
  "key_missing_text = [0x274C] @ ascii '' GROQ_API_KEY not found in Streamlit secrets''"

definition setup_instructions :: pystr where
  "setup_instructions = join_lines
    [[],
     ascii ''            **Setup Instructions:**'',
     ascii ''            1. Create `.streamlit/secrets.toml` in your project root'',
     ascii ''            2. Add: `GROQ_API_KEY = '' @ [0x22] @ ascii ''your_actual_key_here'' @ [0x22] @ ascii ''`'',
     ascii ''            3. Get your key from: https://console.groq.com/keys'',
     ascii ''            '']"

definition unavailable_text :: pystr where
  "unavailable_text = [0x274C] @ ascii '' Groq LLM is not available''"

definition connected_text :: pystr where
  "connected_text = [0x2705] @ ascii '' Groq LLM Successfully Connected!''"

definition try_header :: pystr where
  "try_header = [0x1F4AC] @ ascii '' Try the LLM''"

definition prompt_label :: pystr where
  "prompt_label = ascii ''Enter your prompt:''"

definition prompt_default :: pystr where
  "prompt_default = ascii ''Hello from Streamlit! Please explain what you are in one sentence.''"

definition button_label :: pystr where
  "button_label = [0x1F3AF] @ ascii '' Generate Response''"

definition spinner_text :: pystr where
  "spinner_text = ascii ''Generating response...''"

definition response_header :: pystr where
  "response_header = [0x1F916] @ ascii '' Response''"

definition details_label :: pystr where
  "details_label = [0x1F4CA] @ ascii '' Response Details''"

definition warning_text :: pystr where
  "warning_text = ascii ''Please enter a prompt first!''"

definition settings_header :: pystr where
  "settings_header = [0x2699] @ [0xFE0F] @ ascii '' Settings''"

definition implementation_header :: pystr where
  "implementation_header = [0x1F4DD] @ ascii '' Implementation Code''"

definition implementation_label :: pystr where
  "implementation_label = ascii ''View the secure implementation''"

definition sample_python :: pystr where
  "sample_python = join_lines
    [[],
     ascii ''# In streamlit_app.py'',
     ascii ''import streamlit as st'',
     ascii ''from your_module import GroqLLM'',
     [],
     ascii ''# Create LLM using key from Streamlit secrets'',
     ascii ''llm = GroqLLM(api_key=st.secrets['' @ [0x22] @ ascii ''GROQ_API_KEY'' @ [0x22] @ ascii ''])'',
     [],
     ascii ''# Generate response'',
     ascii ''response = llm.generate('' @ [0x22] @ ascii ''Hello from Streamlit!'' @ [0x22] @ ascii '')'',
     ascii ''st.write(response.content)'',
     ascii ''            '']"

definition secrets_caption :: pystr where
  "secrets_caption = ascii ''**Secrets setup (.streamlit/secrets.toml):**''"

definition sample_toml :: pystr where
  "sample_toml = join_lines
    [[],
     ascii ''GROQ_API_KEY = '' @ [0x22] @ ascii ''gsk_xxx_your_key_here'' @ [0x22],
     ascii ''            '']"

definition gitignore_caption :: pystr where
  "gitignore_caption = ascii ''**Gitignore entry:**''"

definition gitignore_entry :: pystr where
  "gitignore_entry = ascii ''.streamlit/secrets.toml''"

definition error_prefix :: pystr where
  "error_prefix = [0x274C] @ ascii '' Error initializing Groq LLM: ''"

definition common_issues :: pystr where
  "common_issues = join_lines
    [[],
     ascii ''        **Common Issues:**'',
     ascii ''        1. Missing API key in secrets'',
     ascii ''        2. Invalid API key format'',
     ascii ''        3. Network connectivity issues'',
     ascii ''        4. Groq package not installed (`pip install groq`)'',
     ascii ''        '']"


section \<open>The script\<close>

text \<open>The values the four input widgets return to the script (lines 57-61, 66, 88, 89).\<close>

definition user_prompt :: "'h env \<Rightarrow> pystr" where
  "user_prompt env = st_text_area env prompt_label prompt_default 100"

definition button_pressed :: "'h env \<Rightarrow> bool" where
  "button_pressed env = st_button env button_label (ascii ''primary'')"

definition temperature :: "'h env \<Rightarrow> real" where
  "temperature env = st_slider_float env (ascii ''Temperature'') 0.0 1.0 0.3 0.1"

definition max_tokens :: "'h env \<Rightarrow> int" where
  "max_tokens env = st_slider_int env (ascii ''Max Tokens'') 50 1000 500 50"

text \<open>Lines 16-27: the part of the page in front of the \<open>try\<close>.\<close>

definition page_head :: "event list" where
  "page_head =
     [Render [] (Title title_text),
      Render [] (Markdown rule_text),
      Render [] (Subheader secure_header),
      Render [] (Info secure_info)]"

text \<open>Lines 67-83: the body of \<open>if st.button(...)\<close>, inside \<open>with col1\<close>.\<close>

definition on_click :: "'h env \<Rightarrow> 'h \<Rightarrow> pystr \<Rightarrow> block" where
  "on_click env llm prompt =
     (if strip prompt \<noteq> [] then
        emit [Render [Col1] (Spinner spinner_text),
              Invoke [Col1, In_spinner spinner_text] (Generate prompt)]
          (case generate env llm prompt of
             Inl e \<Rightarrow> ([], Some e)
           | Inr response \<Rightarrow>
               ([Render [Col1] (Subheader response_header),
                 Render [Col1] (Write (content response)),
                 Render [Col1] (Expander details_label),
                 Render [Col1, In_expander details_label]
                   (Json (JObj [(ascii ''model'', JStr (model response)),
                                (ascii ''usage'', JObj (usage response)),
                                (ascii ''metadata'', JObj (metadata response))]))],
                None))
      else ([Render [Col1] (Warning warning_text)], None))"

text \<open>Lines 65-66: \<open>with col1\<close>, the button and what a click does.\<close>

definition col1_block :: "'h env \<Rightarrow> 'h \<Rightarrow> pystr \<Rightarrow> block" where
  "col1_block env llm prompt =
     emit [Render [Col1] (Button button_label (ascii ''primary''))]
       (if button_pressed env then on_click env llm prompt else ([], None))"

text \<open>
  Lines 85-89: \<open>with col2\<close>.  The two slider values are bound to local variables that no
  later statement reads.
\<close>

definition col2_block :: "'h env \<Rightarrow> block" where
  "col2_block env =
     (let temperature = temperature env;
          max_tokens = max_tokens env
      in ([Render [Col2] (Subheader settings_header),
           Render [Col2] (Slider_float (ascii ''Temperature'') 0.0 1.0 0.3 0.1),
           Render [Col2] (Slider_int (ascii ''Max Tokens'') 50 1000 500 50)],
          None))"

text \<open>Lines 91-113: the code samples.\<close>

definition implementation_block :: block where
  "implementation_block =
     ([Render [] (Subheader implementation_header),
       Render [] (Expander implementation_label),
       Render [In_expander implementation_label] (Code_block sample_python (ascii ''python'')),
       Render [In_expander implementation_label] (Markdown secrets_caption),
       Render [In_expander implementation_label] (Code_block sample_toml (ascii ''toml'')),
       Render [In_expander implementation_label] (Markdown gitignore_caption),
       Render [In_expander implementation_label] (Code_block gitignore_entry (ascii ''text''))],
      None)"

text \<open>Lines 51-113: the page once the client is available.\<close>

definition demo_section :: "'h env \<Rightarrow> 'h \<Rightarrow> block" where
  "demo_section env llm =
     (let prompt = user_prompt env
      in emit [Render [] (Success connected_text),
               Render [] (Subheader try_header),
               Render [] (Text_area prompt_label prompt_default 100),
               Render [] (Columns [1, 3])]
           (and_then (col1_block env llm prompt)
              (and_then (col2_block env) implementation_block)))"

text \<open>
  Lines 31-113: the body of the \<open>try\<close>.  \<open>if not api_key\<close> holds for \<open>None\<close> and for the
  empty string; both \<open>return\<close> statements end the run without an exception.
\<close>

definition key_missing_block :: block where
  "key_missing_block =
     ([Render [] (Error key_missing_text), Render [] (Markdown setup_instructions)], None)"

definition with_key :: "'h env \<Rightarrow> pystr \<Rightarrow> block" where
  "with_key env api_key =
     emit [Invoke [] (Construct api_key)]
       (case GroqLLM env api_key of
          Inl e \<Rightarrow> ([], Some e)
        | Inr llm \<Rightarrow>
            emit [Invoke [] Is_available]
              (case is_available env llm of
                 Inl e \<Rightarrow> ([], Some e)
               | Inr available \<Rightarrow>
                   if \<not> available then ([Render [] (Error unavailable_text)], None)
                   else demo_section env llm))"

definition try_body :: "'h env \<Rightarrow> block" where
  "try_body env =
     emit [Invoke [] (Secrets_get key_name)]
       (case secrets_get env key_name of
          Inl e \<Rightarrow> ([], Some e)
        | Inr None \<Rightarrow> key_missing_block
        | Inr (Some api_key) \<Rightarrow>
            if api_key = [] then key_missing_block else with_key env api_key)"

text \<open>
  Lines 116-123: the body of \<open>except Exception as e\<close>.  The text of the error message is
  built first, and \<open>str(e)\<close> is evaluated for it; an exception raised there is raised
  inside the handler, where nothing catches it, and nothing has been displayed yet.
\<close>

definition handler :: "py_exception \<Rightarrow> block" where
  "handler e =
     (case str_result e of
        Inl e' \<Rightarrow> ([], Some e')
      | Inr s \<Rightarrow>
          ([Render [] (Error (error_prefix @ s)), Render [] (Markdown common_issues)], None))"

text \<open>Lines 15-123.\<close>

definition main :: "'h env \<Rightarrow> outcome" where
  "main env =
     (case try_body env of
        (evs, None) \<Rightarrow> \<lparr>trace = page_head @ evs, escaped = None\<rparr>
      | (evs, Some e) \<Rightarrow>
          if is_Exception e
          then \<lparr>trace = page_head @ evs @ fst (handler e), escaped = snd (handler e)\<rparr>
          else \<lparr>trace = page_head @ evs, escaped = Some e\<rparr>)"


section \<open>Observations on a run\<close>

text \<open>The arguments of the calls of \<open>generate\<close> and of the constructor, in order.\<close>

fun generate_arg :: "event \<Rightarrow> pystr option" where
  "generate_arg (Invoke _ (Generate p)) = Some p"
| "generate_arg _ = None"

definition generate_calls :: "event list \<Rightarrow> pystr list" where
  "generate_calls tr = List.map_filter generate_arg tr"

fun construct_arg :: "event \<Rightarrow> pystr option" where
  "construct_arg (Invoke _ (Construct k)) = Some k"
| "construct_arg _ = None"

definition construct_calls :: "event list \<Rightarrow> pystr list" where
  "construct_calls tr = List.map_filter construct_arg tr"

text \<open>The method calls on the client handle, in order (the constructor is not one).\<close>

fun handle_op :: "event \<Rightarrow> call option" where
  "handle_op (Invoke _ Is_available) = Some Is_available"
| "handle_op (Invoke _ (Generate p)) = Some (Generate p)"
| "handle_op _ = None"

definition handle_ops :: "event list \<Rightarrow> call list" where
  "handle_ops tr = List.map_filter handle_op tr"

text \<open>What is displayed: the display calls alone, in order.\<close>

fun rendering :: "event \<Rightarrow> (place list \<times> element) option" where
  "rendering (Render pl el) = Some (pl, el)"
| "rendering (Invoke _ _) = None"

definition rendered :: "event list \<Rightarrow> (place list \<times> element) list" where
  "rendered tr = List.map_filter rendering tr"

text \<open>The input widgets, and the success indicator.\<close>

fun is_control :: "element \<Rightarrow> bool" where
  "is_control (Text_area _ _ _) = True"
| "is_control (Button _ _) = True"
| "is_control (Slider_float _ _ _ _ _) = True"
| "is_control (Slider_int _ _ _ _ _) = True"
| "is_control _ = False"

fun is_success :: "element \<Rightarrow> bool" where
  "is_success (Success _) = True"
| "is_success _ = False"

text \<open>
  What the page can see of the client made from a key: the exception of the constructor,
  or the behaviour of the two methods on the handle.
\<close>

definition client_view ::
  "'h env \<Rightarrow> pystr \<Rightarrow> py_exception + (py_exception + bool) \<times> (pystr \<Rightarrow> py_exception + response)" where
  "client_view env k =
     (case GroqLLM env k of
        Inl e \<Rightarrow> Inl e
      | Inr llm \<Rightarrow> Inr (is_available env llm, generate env llm))"


section \<open>Stub collaborators\<close>

text \<open>
  A stub of everything outside the file: the secrets store answers \<open>secret\<close>, the
  constructor \<open>made\<close>, \<open>is_available\<close> answers \<open>avail\<close>, \<open>generate\<close> is \<open>gen\<close>, the text
  area holds \<open>prompt\<close>, the button reports \<open>pressed\<close>, and the sliders stand at their
  defaults.
\<close>

definition stub_env ::
  "(py_exception + pystr option) \<Rightarrow> (py_exception + unit) \<Rightarrow> (py_exception + bool) \<Rightarrow>
   (pystr \<Rightarrow> py_exception + response) \<Rightarrow> pystr \<Rightarrow> bool \<Rightarrow> unit env" where
  "stub_env secret made avail gen prompt pressed =
     \<lparr>secrets_get = (\<lambda>_. secret),
      GroqLLM = (\<lambda>_. made),
      is_available = (\<lambda>_. avail),
      generate = (\<lambda>_. gen),
      st_text_area = (\<lambda>_ _ _. prompt),
      st_button = (\<lambda>_ _. pressed),
      st_slider_float = (\<lambda>_ lo hi v step. v),
      st_slider_int = (\<lambda>_ lo hi v step. v)\<rparr>"

definition hello_response :: response where
  "hello_response =
     \<lparr>content = ascii ''Hello'', model = ascii ''m1'',
      usage = [(ascii ''tokens'', JInt 5)], metadata = []\<rparr>"

definition hi_client :: "pystr \<Rightarrow> py_exception + response" where
  "hi_client p =
     (if p = ascii ''Hi'' then Inr hello_response
      else Inl (Py_exception True (Inr (ascii ''unexpected prompt''))))"

definition some_key :: pystr where
  "some_key = ascii ''gsk_test''"

definition other_key :: pystr where
  "other_key = ascii ''gsk_other''"

definition timeout_error :: py_exception where
  "timeout_error = Py_exception True (Inr (ascii ''timed out''))"

definition system_exit :: py_exception where
  "system_exit = Py_exception False (Inr [])"

text \<open>An exception whose \<open>__str__\<close> returns \<open>None\<close>: \<open>str\<close> of it raises a \<open>TypeError\<close>.\<close>

definition type_error :: py_exception where
  "type_error = Py_exception True (Inr (ascii ''__str__ returned non-string (type NoneType)''))"

definition unprintable_error :: py_exception where
  "unprintable_error = Py_exception True (Inl type_error)"

text \<open>Runs of the page against the stub, used to instantiate the results below.\<close>

definition hi_env :: "unit env" where
  "hi_env = stub_env (Inr (Some some_key)) (Inr ()) (Inr True) hi_client (ascii ''Hi'') True"

definition other_key_env :: "unit env" where
  "other_key_env = stub_env (Inr (Some other_key)) (Inr ()) (Inr True) hi_client (ascii ''Hi'') True"

definition padded_env :: "unit env" where
  "padded_env = stub_env (Inr (Some some_key)) (Inr ()) (Inr True) hi_client (ascii '' Hi '') True"

definition blank_env :: "unit env" where
  "blank_env =
     stub_env (Inr (Some some_key)) (Inr ()) (Inr True) hi_client (ascii ''  '' @ [0x09, 0x3000]) True"

definition idle_env :: "unit env" where
  "idle_env = stub_env (Inr (Some some_key)) (Inr ()) (Inr True) hi_client (ascii ''Hi'') False"

definition no_key_env :: "unit env" where
  "no_key_env = stub_env (Inr None) (Inr ()) (Inr True) hi_client (ascii ''Hi'') True"

definition empty_key_env :: "unit env" where
  "empty_key_env = stub_env (Inr (Some [])) (Inr ()) (Inr True) hi_client (ascii ''Hi'') True"

definition down_env :: "unit env" where
  "down_env = stub_env (Inr (Some some_key)) (Inr ()) (Inr False) hi_client (ascii ''Hi'') True"

definition failing_env :: "unit env" where
  "failing_env =
     stub_env (Inr (Some some_key)) (Inr ()) (Inr True) (\<lambda>_. Inl timeout_error) (ascii ''Hi'') True"

definition unprintable_env :: "unit env" where
  "unprintable_env =
     stub_env (Inr (Some some_key)) (Inr ()) (Inr True) (\<lambda>_. Inl unprintable_error)
       (ascii ''Hi'') True"

definition exiting_env :: "unit env" where
  "exiting_env =
     stub_env (Inr (Some some_key)) (Inr ()) (Inr True) (\<lambda>_. Inl system_exit) (ascii ''Hi'') True"

text \<open>The events displayed in the second column.\<close>

fun in_col2 :: "event \<Rightarrow> bool" where
  "in_col2 (Render [Col2] _) = True"
| "in_col2 _ = False"


section \<open>Auxiliary facts\<close>

lemmas script_defs =
  main_def try_body_def with_key_def key_missing_block_def demo_section_def col1_block_def
  on_click_def col2_block_def implementation_block_def emit_def and_then_def handler_def

lemmas observer_defs =
  generate_calls_def construct_calls_def handle_ops_def rendered_def page_head_def

lemmas stub_defs =
  stub_env_def user_prompt_def button_pressed_def some_key_def other_key_def
  ascii_def strip_def py_isspace_def hi_client_def

text \<open>\<open>strip\<close> leaves nothing exactly of the strings that are empty or all whitespace.\<close>

lemma strip_eq_Nil_iff: "strip s = [] \<longleftrightarrow> (\<forall>c\<in>set s. py_isspace c)"
proof -
  have "strip s = [] \<longleftrightarrow> (\<forall>c\<in>set (dropWhile py_isspace s). py_isspace c)"
    by (simp add: strip_def)
  also have "\<dots> \<longleftrightarrow> dropWhile py_isspace s = []"
  proof
    assume a: "\<forall>c\<in>set (dropWhile py_isspace s). py_isspace c"
    show "dropWhile py_isspace s = []"
    proof (rule ccontr)
      assume "dropWhile py_isspace s \<noteq> []"
      then have "\<not> py_isspace (hd (dropWhile py_isspace s))"
        and "hd (dropWhile py_isspace s) \<in> set (dropWhile py_isspace s)"
        by (simp_all add: hd_dropWhile)
      with a show False by blast
    qed
  qed (auto dest: set_dropWhileD)
  also have "\<dots> \<longleftrightarrow> (\<forall>c\<in>set s. py_isspace c)"
    by simp
  finally show ?thesis .
qed

text \<open>The result of \<open>main\<close> in terms of the body of the \<open>try\<close>.\<close>

lemma trace_main:
  "trace (main env) = page_head @ fst (try_body env) @
     (case snd (try_body env) of
        None \<Rightarrow> []
      | Some e \<Rightarrow> if is_Exception e then fst (handler e) else [])"
  by (cases "try_body env") (simp add: main_def split: option.split)

lemma escaped_main:
  "escaped (main env) =
     (case snd (try_body env) of
        None \<Rightarrow> None
      | Some e \<Rightarrow> if is_Exception e then snd (handler e) else Some e)"
  by (cases "try_body env") (simp add: main_def split: option.split)

text \<open>The whole run when the button is pressed on a prompt that is not blank.\<close>

lemma main_generate_raised:
  assumes "secrets_get env key_name = Inr (Some k)" and "k \<noteq> []"
    and "GroqLLM env k = Inr llm" and "is_available env llm = Inr True"
    and "button_pressed env"
    and "strip (user_prompt env) \<noteq> []"
    and "generate env llm (user_prompt env) = Inl e"
  shows "main env =
     \<lparr>trace = page_head @
        [Invoke [] (Secrets_get key_name),
         Invoke [] (Construct k),
         Invoke [] Is_available,
         Render [] (Success connected_text),
         Render [] (Subheader try_header),
         Render [] (Text_area prompt_label prompt_default 100),
         Render [] (Columns [1, 3]),
         Render [Col1] (Button button_label (ascii ''primary'')),
         Render [Col1] (Spinner spinner_text),
         Invoke [Col1, In_spinner spinner_text] (Generate (user_prompt env))] @
        (if is_Exception e then fst (handler e) else []),
      escaped = (if is_Exception e then snd (handler e) else Some e)\<rparr>"
  using assms
  by (simp add: main_def try_body_def with_key_def demo_section_def col1_block_def on_click_def
      emit_def and_then_def)

lemma main_generate_returned:
  assumes "secrets_get env key_name = Inr (Some k)" and "k \<noteq> []"
    and "GroqLLM env k = Inr llm" and "is_available env llm = Inr True"
    and "button_pressed env"
    and "strip (user_prompt env) \<noteq> []"
    and "generate env llm (user_prompt env) = Inr r"
  shows "main env =
     \<lparr>trace = page_head @
        [Invoke [] (Secrets_get key_name),
         Invoke [] (Construct k),
         Invoke [] Is_available,
         Render [] (Success connected_text),
         Render [] (Subheader try_header),
         Render [] (Text_area prompt_label prompt_default 100),
         Render [] (Columns [1, 3]),
         Render [Col1] (Button button_label (ascii ''primary'')),
         Render [Col1] (Spinner spinner_text),
         Invoke [Col1, In_spinner spinner_text] (Generate (user_prompt env)),
         Render [Col1] (Subheader response_header),
         Render [Col1] (Write (content r)),
         Render [Col1] (Expander details_label),
         Render [Col1, In_expander details_label]
           (Json (JObj [(ascii ''model'', JStr (model r)),
                        (ascii ''usage'', JObj (usage r)),
                        (ascii ''metadata'', JObj (metadata r))]))] @
        fst (col2_block env) @ fst implementation_block,
      escaped = None\<rparr>"
  using assms
  by (simp add: main_def try_body_def with_key_def demo_section_def col1_block_def on_click_def
      emit_def and_then_def)
    (simp add: col2_block_def implementation_block_def)

lemma generate_called_once:
  assumes "secrets_get env key_name = Inr (Some k)" and "k \<noteq> []"
    and "GroqLLM env k = Inr llm" and "is_available env llm = Inr True"
    and "button_pressed env"
    and "strip (user_prompt env) \<noteq> []"
  shows "generate_calls (trace (main env)) = [user_prompt env]"
proof (cases "generate env llm (user_prompt env)")
  case (Inl e)
  from main_generate_raised [OF assms Inl] show ?thesis
    by (simp add: observer_defs handler_def split: sum.split)
next
  case (Inr r)
  from main_generate_returned [OF assms Inr] show ?thesis
    by (simp add: observer_defs col2_block_def implementation_block_def)
qed

text \<open>The slider widgets have no influence on the run.\<close>

lemma demo_section_sliders:
  "demo_section (env\<lparr>st_slider_float := f, st_slider_int := g\<rparr>) llm = demo_section env llm"
  by (simp add: demo_section_def col1_block_def col2_block_def on_click_def
      user_prompt_def button_pressed_def)

lemma with_key_sliders:
  "with_key (env\<lparr>st_slider_float := f, st_slider_int := g\<rparr>) k = with_key env k"
  by (simp add: with_key_def demo_section_sliders split: sum.split)

lemma main_sliders:
  "main (env\<lparr>st_slider_float := f, st_slider_int := g\<rparr>) = main env"
  by (simp add: main_def try_body_def with_key_sliders split: sum.split option.split)

text \<open>The second column is displayed as a whole or not at all.\<close>

lemma col2_of_col1_block: "filter in_col2 (fst (col1_block env llm p)) = []"
  by (simp add: col1_block_def on_click_def emit_def split: sum.split)

lemma col2_of_demo_section:
  "filter in_col2 (fst (demo_section env llm)) = [] \<or>
   filter in_col2 (fst (demo_section env llm)) = fst (col2_block env)"
  by (simp add: demo_section_def Let_def emit_def and_then_def col2_of_col1_block
      implementation_block_def col2_block_def split: option.split)

lemma col2_of_with_key:
  "filter in_col2 (fst (with_key env k)) = [] \<or>
   filter in_col2 (fst (with_key env k)) = fst (col2_block env)"
  using col2_of_demo_section [of env]
  by (auto simp add: with_key_def emit_def split: sum.split)

lemma col2_of_try_body:
  "filter in_col2 (fst (try_body env)) = [] \<or>
   filter in_col2 (fst (try_body env)) = fst (col2_block env)"
  using col2_of_with_key [of env]
  by (auto simp add: try_body_def emit_def key_missing_block_def split: sum.split option.split)

lemma col2_of_main:
  "filter in_col2 (trace (main env)) = [] \<or>
   filter in_col2 (trace (main env)) = fst (col2_block env)"
  using col2_of_try_body [of env]
  by (cases "try_body env")
    (auto simp add: main_def page_head_def handler_def split: option.split sum.split)

text \<open>Two clients that look the same give the same page.\<close>

lemma rendered_append: "rendered (xs @ ys) = rendered xs @ rendered ys"
  by (simp add: rendered_def List.map_filter_def)

lemma demo_section_same_client:
  assumes "generate env llm = generate env' llm'"
    and "st_text_area env' = st_text_area env" and "st_button env' = st_button env"
  shows "demo_section env llm = demo_section env' llm'"
  using assms
  by (simp add: demo_section_def col1_block_def col2_block_def on_click_def
      user_prompt_def button_pressed_def)

lemma with_key_same_client:
  assumes "client_view env k = client_view env' k'"
    and "st_text_area env' = st_text_area env" and "st_button env' = st_button env"
  shows "\<exists>b. with_key env k = emit [Invoke [] (Construct k)] b \<and>
             with_key env' k' = emit [Invoke [] (Construct k')] b"
proof (cases "GroqLLM env k")
  case (Inl e)
  with assms(1) have "GroqLLM env' k' = Inl e"
    by (simp add: client_view_def split: sum.splits)
  with Inl show ?thesis
    by (intro exI [of _ "([], Some e)"]) (simp add: with_key_def)
next
  case (Inr llm)
  with assms(1) obtain llm' where l': "GroqLLM env' k' = Inr llm'"
    and a: "is_available env llm = is_available env' llm'"
    and g: "generate env llm = generate env' llm'"
    by (auto simp add: client_view_def split: sum.splits)
  from g assms(2,3) have d: "demo_section env llm = demo_section env' llm'"
    by (rule demo_section_same_client)
  from Inr l' a d show ?thesis
    by (intro exI [of _ "emit [Invoke [] Is_available]
          (case is_available env' llm' of
             Inl e \<Rightarrow> ([], Some e)
           | Inr available \<Rightarrow>
               if \<not> available then ([Render [] (Error unavailable_text)], None)
               else demo_section env' llm')"])
      (simp add: with_key_def split: sum.split)
qed


section \<open>The empty prompt\<close>

text \<open>
  Claim C1.  The client is available, the button ``Generate Response'' is pressed, and the
  prompt is empty or whitespace only, that is, \<open>strip\<close> leaves nothing of it.  Then the
  warning is displayed in the first column, \<open>generate\<close> is not called in the run, and the
  run ends without an exception.
\<close>

theorem blank_prompt_warns_without_generate:
  assumes "secrets_get env key_name = Inr (Some k)" and "k \<noteq> []"
    and "GroqLLM env k = Inr llm" and "is_available env llm = Inr True"
    and "button_pressed env"
    and "strip (user_prompt env) = []"
  shows "Render [Col1] (Warning warning_text) \<in> set (trace (main env)) \<and>
         generate_calls (trace (main env)) = [] \<and>
         escaped (main env) = None"
  using assms by (simp add: script_defs observer_defs)

theorem blank_prompt_witness:
  "button_pressed blank_env \<and>
   user_prompt blank_env = [0x20, 0x20, 0x09, 0x3000] \<and>
   strip (user_prompt blank_env) = [] \<and>
   Render [Col1] (Warning warning_text) \<in> set (trace (main blank_env)) \<and>
   generate_calls (trace (main blank_env)) = [] \<and>
   escaped (main blank_env) = None"
proof -
  have h: "secrets_get blank_env key_name = Inr (Some some_key)" "some_key \<noteq> []"
    "GroqLLM blank_env some_key = Inr ()" "is_available blank_env () = Inr True"
    "button_pressed blank_env" "strip (user_prompt blank_env) = []"
    by (simp_all add: blank_env_def stub_defs)
  have p: "user_prompt blank_env = [0x20, 0x20, 0x09, 0x3000]"
    by (simp add: blank_env_def stub_defs)
  from blank_prompt_warns_without_generate [OF h] h p show ?thesis by simp
qed


section \<open>The missing key\<close>

text \<open>
  Claim C2.  The secrets store has no value under \<open>GROQ_API_KEY\<close>, or the empty string.
  Then the run consists of the head of the page, the lookup, the error message and the
  setup instructions, in this order and nothing after them; it ends without an exception,
  and the constructor of the client is not called.
\<close>

theorem missing_key_stops_before_client:
  assumes "secrets_get env key_name = Inr None \<or> secrets_get env key_name = Inr (Some [])"
  shows "main env =
           \<lparr>trace = page_head @
              [Invoke [] (Secrets_get key_name),
               Render [] (Error key_missing_text),
               Render [] (Markdown setup_instructions)],
            escaped = None\<rparr> \<and>
         construct_calls (trace (main env)) = []"
  using assms by (auto simp add: script_defs observer_defs)

theorem missing_key_witness:
  "secrets_get no_key_env key_name = Inr None \<and>
   secrets_get empty_key_env key_name = Inr (Some []) \<and>
   main no_key_env = main empty_key_env \<and>
   trace (main empty_key_env) = page_head @
     [Invoke [] (Secrets_get key_name),
      Render [] (Error key_missing_text),
      Render [] (Markdown setup_instructions)] \<and>
   escaped (main empty_key_env) = None \<and>
   construct_calls (trace (main empty_key_env)) = []"
proof -
  have n: "secrets_get no_key_env key_name = Inr None"
    by (simp add: no_key_env_def stub_env_def)
  have e: "secrets_get empty_key_env key_name = Inr (Some [])"
    by (simp add: empty_key_env_def stub_env_def)
  from missing_key_stops_before_client [of no_key_env]
    missing_key_stops_before_client [of empty_key_env] n e
  show ?thesis by (simp add: observer_defs)
qed


section \<open>Exceptions\<close>

text \<open>
  Claim C3, as the code has it.  An exception that is an instance of \<open>Exception\<close> and
  whose \<open>str\<close> returns a text is raised by the lookup of the key, by the constructor of
  the client, by \<open>is_available\<close>, or by \<open>generate\<close> (called on a pressed button and a
  prompt that is not blank).  Then it is caught: the run ends without an exception, and
  its last two display calls are the error message, made of a fixed prefix and
  \<open>str(e)\<close>, and the fixed list of common issues.  The page remains usable: where the
  client was available, so that it is \<open>generate\<close> that failed, the text area of the
  prompt and the button are on the page of this run, for the next attempt.
\<close>

theorem Exception_is_caught_and_reported:
  assumes "is_Exception e" and "str_result e = Inr s"
    and "secrets_get env key_name = Inl e \<or>
         (\<exists>k. secrets_get env key_name = Inr (Some k) \<and> k \<noteq> [] \<and>
            (GroqLLM env k = Inl e \<or>
             (\<exists>llm. GroqLLM env k = Inr llm \<and>
                (is_available env llm = Inl e \<or>
                 (is_available env llm = Inr True \<and> button_pressed env \<and>
                  strip (user_prompt env) \<noteq> [] \<and>
                  generate env llm (user_prompt env) = Inl e)))))"
  shows "escaped (main env) = None \<and>
         (\<exists>evs. trace (main env) = evs @
            [Render [] (Error (error_prefix @ s)), Render [] (Markdown common_issues)]) \<and>
         (\<forall>k llm. secrets_get env key_name = Inr (Some k) \<longrightarrow> GroqLLM env k = Inr llm \<longrightarrow>
            is_available env llm = Inr True \<longrightarrow>
            Render [] (Text_area prompt_label prompt_default 100) \<in> set (trace (main env)) \<and>
            Render [Col1] (Button button_label (ascii ''primary'')) \<in> set (trace (main env)))"
  using assms by (auto simp add: script_defs)

theorem Exception_witness:
  "is_Exception timeout_error \<and>
   str_result timeout_error = Inr (ascii ''timed out'') \<and>
   generate failing_env () (user_prompt failing_env) = Inl timeout_error \<and>
   escaped (main failing_env) = None \<and>
   (\<exists>evs. trace (main failing_env) = evs @
      [Render [] (Error (error_prefix @ ascii ''timed out'')),
       Render [] (Markdown common_issues)]) \<and>
   Render [] (Text_area prompt_label prompt_default 100) \<in> set (trace (main failing_env)) \<and>
   Render [Col1] (Button button_label (ascii ''primary'')) \<in> set (trace (main failing_env))"
proof -
  have h: "is_Exception timeout_error" "str_result timeout_error = Inr (ascii ''timed out'')"
    by (simp_all add: timeout_error_def)
  have g: "secrets_get failing_env key_name = Inr (Some some_key)" "some_key \<noteq> []"
    "GroqLLM failing_env some_key = Inr ()" "is_available failing_env () = Inr True"
    "button_pressed failing_env" "strip (user_prompt failing_env) \<noteq> []"
    "generate failing_env () (user_prompt failing_env) = Inl timeout_error"
    by (simp_all add: failing_env_def stub_defs)
  from g have d: "secrets_get failing_env key_name = Inl timeout_error \<or>
         (\<exists>k. secrets_get failing_env key_name = Inr (Some k) \<and> k \<noteq> [] \<and>
            (GroqLLM failing_env k = Inl timeout_error \<or>
             (\<exists>llm. GroqLLM failing_env k = Inr llm \<and>
                (is_available failing_env llm = Inl timeout_error \<or>
                 (is_available failing_env llm = Inr True \<and> button_pressed failing_env \<and>
                  strip (user_prompt failing_env) \<noteq> [] \<and>
                  generate failing_env llm (user_prompt failing_env) = Inl timeout_error)))))"
    by simp
  from Exception_is_caught_and_reported [OF h d] h g show ?thesis by simp
qed

text \<open>
  Two exceptions raised by \<open>generate\<close> that leave \<open>main\<close>.  \<open>SystemExit\<close> is not an
  instance of \<open>Exception\<close> and passes the handler.  An instance of \<open>Exception\<close> whose
  \<open>__str__\<close> returns \<open>None\<close> is caught, but \<open>str(e)\<close> raises a \<open>TypeError\<close> inside the
  handler.  In both runs the call of \<open>generate\<close> is the last event: no error message
  is displayed.
\<close>

theorem uncaught_exceptions_escape:
  "\<not> is_Exception system_exit \<and>
   generate exiting_env () (user_prompt exiting_env) = Inl system_exit \<and>
   main exiting_env =
     \<lparr>trace = page_head @
        [Invoke [] (Secrets_get key_name),
         Invoke [] (Construct some_key),
         Invoke [] Is_available,
         Render [] (Success connected_text),
         Render [] (Subheader try_header),
         Render [] (Text_area prompt_label prompt_default 100),
         Render [] (Columns [1, 3]),
         Render [Col1] (Button button_label (ascii ''primary'')),
         Render [Col1] (Spinner spinner_text),
         Invoke [Col1, In_spinner spinner_text] (Generate (ascii ''Hi''))],
      escaped = Some system_exit\<rparr> \<and>
   is_Exception unprintable_error \<and>
   generate unprintable_env () (user_prompt unprintable_env) = Inl unprintable_error \<and>
   main unprintable_env =
     \<lparr>trace = page_head @
        [Invoke [] (Secrets_get key_name),
         Invoke [] (Construct some_key),
         Invoke [] Is_available,
         Render [] (Success connected_text),
         Render [] (Subheader try_header),
         Render [] (Text_area prompt_label prompt_default 100),
         Render [] (Columns [1, 3]),
         Render [Col1] (Button button_label (ascii ''primary'')),
         Render [Col1] (Spinner spinner_text),
         Invoke [Col1, In_spinner spinner_text] (Generate (ascii ''Hi''))],
      escaped = Some type_error\<rparr>"
proof -
  have h: "secrets_get exiting_env key_name = Inr (Some some_key)" "some_key \<noteq> []"
    "GroqLLM exiting_env some_key = Inr ()" "is_available exiting_env () = Inr True"
    "button_pressed exiting_env" "strip (user_prompt exiting_env) \<noteq> []"
    "generate exiting_env () (user_prompt exiting_env) = Inl system_exit"
    by (simp_all add: exiting_env_def stub_defs)
  have p: "user_prompt exiting_env = ascii ''Hi''"
    by (simp add: exiting_env_def stub_env_def user_prompt_def)
  have n: "\<not> is_Exception system_exit" by (simp add: system_exit_def)
  have x: "main exiting_env =
     \<lparr>trace = page_head @
        [Invoke [] (Secrets_get key_name),
         Invoke [] (Construct some_key),
         Invoke [] Is_available,
         Render [] (Success connected_text),
         Render [] (Subheader try_header),
         Render [] (Text_area prompt_label prompt_default 100),
         Render [] (Columns [1, 3]),
         Render [Col1] (Button button_label (ascii ''primary'')),
         Render [Col1] (Spinner spinner_text),
         Invoke [Col1, In_spinner spinner_text] (Generate (ascii ''Hi''))],
      escaped = Some system_exit\<rparr>"
    using main_generate_raised [OF h] p n by simp
  have h': "secrets_get unprintable_env key_name = Inr (Some some_key)" "some_key \<noteq> []"
    "GroqLLM unprintable_env some_key = Inr ()" "is_available unprintable_env () = Inr True"
    "button_pressed unprintable_env" "strip (user_prompt unprintable_env) \<noteq> []"
    "generate unprintable_env () (user_prompt unprintable_env) = Inl unprintable_error"
    by (simp_all add: unprintable_env_def stub_defs)
  have p': "user_prompt unprintable_env = ascii ''Hi''"
    by (simp add: unprintable_env_def stub_env_def user_prompt_def)
  have n': "is_Exception unprintable_error" "handler unprintable_error = ([], Some type_error)"
    by (simp_all add: unprintable_error_def handler_def)
  have y: "main unprintable_env =
     \<lparr>trace = page_head @
        [Invoke [] (Secrets_get key_name),
         Invoke [] (Construct some_key),
         Invoke [] Is_available,
         Render [] (Success connected_text),
         Render [] (Subheader try_header),
         Render [] (Text_area prompt_label prompt_default 100),
         Render [] (Columns [1, 3]),
         Render [Col1] (Button button_label (ascii ''primary'')),
         Render [Col1] (Spinner spinner_text),
         Invoke [Col1, In_spinner spinner_text] (Generate (ascii ''Hi''))],
      escaped = Some type_error\<rparr>"
    using main_generate_raised [OF h'] p' n' by simp
  from x y n n'(1) h(7) h'(7) show ?thesis by simp
qed


section \<open>The response\<close>

text \<open>
  Claim C4.  The client is available, the button is pressed, the prompt is not blank and
  \<open>generate\<close> returns a response.  Then the first column displays the content of the
  response and an expander ``Response Details'', and inside the expander the model, the
  usage and the metadata of the response as one structured value.
\<close>

theorem response_is_displayed:
  assumes "secrets_get env key_name = Inr (Some k)" and "k \<noteq> []"
    and "GroqLLM env k = Inr llm" and "is_available env llm = Inr True"
    and "button_pressed env"
    and "strip (user_prompt env) \<noteq> []"
    and "generate env llm (user_prompt env) = Inr r"
  shows "Render [Col1] (Write (content r)) \<in> set (trace (main env)) \<and>
         Render [Col1] (Expander details_label) \<in> set (trace (main env)) \<and>
         Render [Col1, In_expander details_label]
           (Json (JObj [(ascii ''model'', JStr (model r)),
                        (ascii ''usage'', JObj (usage r)),
                        (ascii ''metadata'', JObj (metadata r))])) \<in> set (trace (main env))"
  using main_generate_returned [OF assms] by simp

text \<open>The stub whose \<open>generate("Hi")\<close> returns content Hello, model m1, usage tokens 5.\<close>

theorem response_witness:
  "user_prompt hi_env = ascii ''Hi'' \<and>
   generate hi_env () (ascii ''Hi'') = Inr hello_response \<and>
   Render [Col1] (Write (ascii ''Hello'')) \<in> set (trace (main hi_env)) \<and>
   Render [Col1] (Expander details_label) \<in> set (trace (main hi_env)) \<and>
   Render [Col1, In_expander details_label]
     (Json (JObj [(ascii ''model'', JStr (ascii ''m1'')),
                  (ascii ''usage'', JObj [(ascii ''tokens'', JInt 5)]),
                  (ascii ''metadata'', JObj [])])) \<in> set (trace (main hi_env))"
proof -
  have h: "secrets_get hi_env key_name = Inr (Some some_key)" "some_key \<noteq> []"
    "GroqLLM hi_env some_key = Inr ()" "is_available hi_env () = Inr True"
    "button_pressed hi_env" "strip (user_prompt hi_env) \<noteq> []"
    "generate hi_env () (user_prompt hi_env) = Inr hello_response"
    by (simp_all add: hi_env_def stub_defs)
  have p: "user_prompt hi_env = ascii ''Hi''"
    by (simp add: hi_env_def stub_env_def user_prompt_def)
  have r: "content hello_response = ascii ''Hello''" "model hello_response = ascii ''m1''"
    "usage hello_response = [(ascii ''tokens'', JInt 5)]" "metadata hello_response = []"
    by (simp_all add: hello_response_def)
  from response_is_displayed [OF h] h(7) p r show ?thesis by simp
qed


section \<open>The unavailable client\<close>

text \<open>
  Claim C5.  The key is present and not empty, the client is constructed and its
  \<open>is_available\<close> returns false.  Then the run consists of the head of the page, the
  lookup, the construction, the availability check and the error ``Groq LLM is not
  available'', and ends there without an exception: no success indicator and no input
  widget is displayed, and \<open>generate\<close> is not called.
\<close>

theorem unavailable_client_stops:
  assumes "secrets_get env key_name = Inr (Some k)" and "k \<noteq> []"
    and "GroqLLM env k = Inr llm" and "is_available env llm = Inr False"
  shows "main env =
           \<lparr>trace = page_head @
              [Invoke [] (Secrets_get key_name),
               Invoke [] (Construct k),
               Invoke [] Is_available,
               Render [] (Error unavailable_text)],
            escaped = None\<rparr> \<and>
         (\<forall>pl el. Render pl el \<in> set (trace (main env)) \<longrightarrow>
            \<not> is_success el \<and> \<not> is_control el) \<and>
         generate_calls (trace (main env)) = []"
  using assms by (auto simp add: script_defs observer_defs)

theorem unavailable_client_witness:
  "is_available down_env () = Inr False \<and>
   button_pressed down_env \<and>
   trace (main down_env) = page_head @
     [Invoke [] (Secrets_get key_name),
      Invoke [] (Construct some_key),
      Invoke [] Is_available,
      Render [] (Error unavailable_text)] \<and>
   escaped (main down_env) = None \<and>
   generate_calls (trace (main down_env)) = []"
proof -
  have h: "secrets_get down_env key_name = Inr (Some some_key)" "some_key \<noteq> []"
    "GroqLLM down_env some_key = Inr ()" "is_available down_env () = Inr False"
    by (simp_all add: down_env_def stub_defs)
  have b: "button_pressed down_env"
    by (simp add: down_env_def stub_defs)
  from unavailable_client_stops [OF h] h b show ?thesis by (simp add: observer_defs)
qed


section \<open>The arguments of the generation call\<close>

text \<open>
  Claim C6.  The client is available, the button is pressed and the prompt is not blank.
  Then \<open>generate\<close> is called once in the run, with the prompt and nothing else; whatever
  the two sliders return, the run is the same, calls and their arguments included; and
  when \<open>generate\<close> returns, the two sliders are displayed, and so read, after the call.
\<close>

theorem generate_gets_the_prompt_alone:
  assumes "secrets_get env key_name = Inr (Some k)" and "k \<noteq> []"
    and "GroqLLM env k = Inr llm" and "is_available env llm = Inr True"
    and "button_pressed env"
    and "strip (user_prompt env) \<noteq> []"
  shows "generate_calls (trace (main env)) = [user_prompt env] \<and>
         (\<forall>f g. main (env\<lparr>st_slider_float := f, st_slider_int := g\<rparr>) = main env) \<and>
         (\<forall>r. generate env llm (user_prompt env) = Inr r \<longrightarrow>
            (\<exists>before after. trace (main env) =
               before @ [Invoke [Col1, In_spinner spinner_text] (Generate (user_prompt env))] @
               after \<and>
               Render [Col2] (Slider_float (ascii ''Temperature'') 0.0 1.0 0.3 0.1) \<in> set after \<and>
               Render [Col2] (Slider_int (ascii ''Max Tokens'') 50 1000 500 50) \<in> set after))"
proof -
  have "generate_calls (trace (main env)) = [user_prompt env]"
    using assms by (rule generate_called_once)
  moreover have "main (env\<lparr>st_slider_float := f, st_slider_int := g\<rparr>) = main env" for f g
    by (rule main_sliders)
  moreover have "\<exists>before after. trace (main env) =
               before @ [Invoke [Col1, In_spinner spinner_text] (Generate (user_prompt env))] @
               after \<and>
               Render [Col2] (Slider_float (ascii ''Temperature'') 0.0 1.0 0.3 0.1) \<in> set after \<and>
               Render [Col2] (Slider_int (ascii ''Max Tokens'') 50 1000 500 50) \<in> set after"
    if r: "generate env llm (user_prompt env) = Inr r" for r
  proof -
    let ?before = "page_head @
        [Invoke [] (Secrets_get key_name),
         Invoke [] (Construct k),
         Invoke [] Is_available,
         Render [] (Success connected_text),
         Render [] (Subheader try_header),
         Render [] (Text_area prompt_label prompt_default 100),
         Render [] (Columns [1, 3]),
         Render [Col1] (Button button_label (ascii ''primary'')),
         Render [Col1] (Spinner spinner_text)]"
    let ?after = "[Render [Col1] (Subheader response_header),
         Render [Col1] (Write (content r)),
         Render [Col1] (Expander details_label),
         Render [Col1, In_expander details_label]
           (Json (JObj [(ascii ''model'', JStr (model r)),
                        (ascii ''usage'', JObj (usage r)),
                        (ascii ''metadata'', JObj (metadata r))]))] @
        fst (col2_block env) @ fst implementation_block"
    have "trace (main env) =
        ?before @ [Invoke [Col1, In_spinner spinner_text] (Generate (user_prompt env))] @ ?after"
      using main_generate_returned [OF assms r] by simp
    moreover have "Render [Col2] (Slider_float (ascii ''Temperature'') 0.0 1.0 0.3 0.1) \<in> set ?after"
      and "Render [Col2] (Slider_int (ascii ''Max Tokens'') 50 1000 500 50) \<in> set ?after"
      by (simp_all add: col2_block_def)
    ultimately show ?thesis by blast
  qed
  ultimately show ?thesis by blast
qed

theorem generate_argument_witness:
  "temperature hi_env = 0.3 \<and> max_tokens hi_env = 500 \<and>
   generate_calls (trace (main hi_env)) = [ascii ''Hi''] \<and>
   main (hi_env\<lparr>st_slider_float := (\<lambda>_ _ _ _ _. 0.9), st_slider_int := (\<lambda>_ _ _ _ _. 1000)\<rparr>) =
     main hi_env"
proof -
  have h: "secrets_get hi_env key_name = Inr (Some some_key)" "some_key \<noteq> []"
    "GroqLLM hi_env some_key = Inr ()" "is_available hi_env () = Inr True"
    "button_pressed hi_env" "strip (user_prompt hi_env) \<noteq> []"
    by (simp_all add: hi_env_def stub_defs)
  have p: "user_prompt hi_env = ascii ''Hi''"
    by (simp add: hi_env_def stub_env_def user_prompt_def)
  have s: "temperature hi_env = 0.3" "max_tokens hi_env = 500"
    by (simp_all add: hi_env_def stub_env_def temperature_def max_tokens_def)
  from generate_gets_the_prompt_alone [OF h] p s show ?thesis by simp
qed


section \<open>Runs without a click\<close>

text \<open>
  Claim C7.  In a run in which the button is not pressed, no method of the client handle
  is called other than \<open>is_available\<close>, and \<open>generate\<close> is not called.
\<close>

theorem no_click_no_generate:
  assumes "\<not> button_pressed env"
  shows "set (handle_ops (trace (main env))) \<subseteq> {Is_available} \<and>
         generate_calls (trace (main env)) = []"
  using assms
  by (auto simp add: script_defs observer_defs split: sum.splits option.splits if_splits)

theorem no_click_witness:
  "\<not> button_pressed idle_env \<and>
   set (handle_ops (trace (main idle_env))) \<subseteq> {Is_available} \<and>
   generate_calls (trace (main idle_env)) = []"
proof -
  have h: "\<not> button_pressed idle_env"
    by (simp add: idle_env_def stub_defs)
  from no_click_no_generate [OF h] h show ?thesis by simp
qed


section \<open>The settings\<close>

text \<open>
  Claim C8.  In a run that displays the settings, the temperature slider is declared with
  the bounds 0.0 and 1.0 and the default 0.3, the slider of the maximal number of tokens
  with the bounds 50 and 1000 and the default 500.  A slider of Streamlit returns a value
  within the bounds it is declared with, when its default lies within them: for such
  sliders the temperature read lies between 0.0 and 1.0, and the number of tokens read
  between 50 and 1000.  The decimal constants of the script are taken as rationals.
\<close>

theorem slider_values_within_bounds:
  assumes "Render [Col2] (Subheader settings_header) \<in> set (trace (main env))"
    and "\<And>label lo hi v step. lo \<le> v \<Longrightarrow> v \<le> hi \<Longrightarrow>
           lo \<le> st_slider_float env label lo hi v step \<and>
           st_slider_float env label lo hi v step \<le> hi"
    and "\<And>label lo hi v step. lo \<le> v \<Longrightarrow> v \<le> hi \<Longrightarrow>
           lo \<le> st_slider_int env label lo hi v step \<and>
           st_slider_int env label lo hi v step \<le> hi"
  shows "Render [Col2] (Slider_float (ascii ''Temperature'') 0.0 1.0 0.3 0.1)
           \<in> set (trace (main env)) \<and>
         Render [Col2] (Slider_int (ascii ''Max Tokens'') 50 1000 500 50)
           \<in> set (trace (main env)) \<and>
         0.0 \<le> temperature env \<and> temperature env \<le> 1.0 \<and>
         50 \<le> max_tokens env \<and> max_tokens env \<le> 1000"
proof -
  have t: "0.0 \<le> temperature env \<and> temperature env \<le> 1.0"
    unfolding temperature_def by (rule assms(2)) simp_all
  have m: "50 \<le> max_tokens env \<and> max_tokens env \<le> 1000"
    unfolding max_tokens_def by (rule assms(3)) simp_all
  from assms(1) have "filter in_col2 (trace (main env)) \<noteq> []"
    by (force simp add: filter_empty_conv)
  with col2_of_main [of env] have "filter in_col2 (trace (main env)) = fst (col2_block env)"
    by blast
  then have "set (fst (col2_block env)) \<subseteq> set (trace (main env))"
    by (metis filter_is_subset)
  then have "Render [Col2] (Slider_float (ascii ''Temperature'') 0.0 1.0 0.3 0.1)
               \<in> set (trace (main env)) \<and>
             Render [Col2] (Slider_int (ascii ''Max Tokens'') 50 1000 500 50)
               \<in> set (trace (main env))"
    by (simp add: col2_block_def)
  with t m show ?thesis by blast
qed

theorem slider_values_witness:
  "Render [Col2] (Subheader settings_header) \<in> set (trace (main hi_env)) \<and>
   Render [Col2] (Slider_float (ascii ''Temperature'') 0.0 1.0 0.3 0.1)
     \<in> set (trace (main hi_env)) \<and>
   Render [Col2] (Slider_int (ascii ''Max Tokens'') 50 1000 500 50)
     \<in> set (trace (main hi_env)) \<and>
   0.0 \<le> temperature hi_env \<and> temperature hi_env \<le> 1.0 \<and>
   50 \<le> max_tokens hi_env \<and> max_tokens hi_env \<le> 1000"
proof -
  have h: "secrets_get hi_env key_name = Inr (Some some_key)" "some_key \<noteq> []"
    "GroqLLM hi_env some_key = Inr ()" "is_available hi_env () = Inr True"
    "button_pressed hi_env" "strip (user_prompt hi_env) \<noteq> []"
    "generate hi_env () (user_prompt hi_env) = Inr hello_response"
    by (simp_all add: hi_env_def stub_defs)
  have s: "Render [Col2] (Subheader settings_header) \<in> set (trace (main hi_env))"
    using main_generate_returned [OF h] by (simp add: col2_block_def)
  have f: "lo \<le> st_slider_float hi_env label lo hi v step \<and>
           st_slider_float hi_env label lo hi v step \<le> hi"
    if "lo \<le> v" and "v \<le> hi" for label lo hi v step
    using that by (simp add: hi_env_def stub_env_def)
  have i: "lo \<le> st_slider_int hi_env label lo hi v step \<and>
           st_slider_int hi_env label lo hi v step \<le> hi"
    if "lo \<le> v" and "v \<le> hi" for label lo hi v step
    using that by (simp add: hi_env_def stub_env_def)
  from slider_values_within_bounds [OF s f i] s show ?thesis by simp
qed


section \<open>The prompt as entered\<close>

text \<open>
  Claim C9.  The client is available, the button is pressed and the prompt is not blank.
  Then the one call of \<open>generate\<close> gets the text of the text area as it is; where
  stripping would change the text, what is passed is not the stripped text.
\<close>

theorem prompt_forwarded_untrimmed:
  assumes "secrets_get env key_name = Inr (Some k)" and "k \<noteq> []"
    and "GroqLLM env k = Inr llm" and "is_available env llm = Inr True"
    and "button_pressed env"
    and "strip (user_prompt env) \<noteq> []"
  shows "generate_calls (trace (main env)) = [user_prompt env] \<and>
         (strip (user_prompt env) \<noteq> user_prompt env \<longrightarrow>
            generate_calls (trace (main env)) \<noteq> [strip (user_prompt env)])"
  using generate_called_once [OF assms] by simp

theorem prompt_untrimmed_witness:
  "user_prompt padded_env = ascii '' Hi '' \<and>
   strip (user_prompt padded_env) = ascii ''Hi'' \<and>
   generate_calls (trace (main padded_env)) = [ascii '' Hi ''] \<and>
   generate_calls (trace (main padded_env)) \<noteq> [ascii ''Hi'']"
proof -
  have h: "secrets_get padded_env key_name = Inr (Some some_key)" "some_key \<noteq> []"
    "GroqLLM padded_env some_key = Inr ()" "is_available padded_env () = Inr True"
    "button_pressed padded_env" "strip (user_prompt padded_env) \<noteq> []"
    by (simp_all add: padded_env_def stub_defs)
  have p: "user_prompt padded_env = ascii '' Hi ''"
    by (simp add: padded_env_def stub_env_def user_prompt_def)
  have s: "strip (ascii '' Hi '') = ascii ''Hi''"
    by (simp add: ascii_def strip_def py_isspace_def)
  have d: "ascii '' Hi '' \<noteq> ascii ''Hi''"
    by (simp add: ascii_def)
  from prompt_forwarded_untrimmed [OF h] p s d show ?thesis by simp
qed


section \<open>The value of the key\<close>

text \<open>
  Claim C10.  Two runs have keys that are not empty, the same text in the text area and
  the same state of the button, and clients that behave alike: both constructors raise
  the same exception, or both return handles on which \<open>is_available\<close> and \<open>generate\<close>
  do the same.  Then the two runs are the same event for event, but for the key passed
  to the constructor; so they display the same, and the same exception, if any, leaves
  \<open>main\<close>.
\<close>

theorem key_value_not_displayed:
  assumes "secrets_get env key_name = Inr (Some k)" and "k \<noteq> []"
    and "secrets_get env' key_name = Inr (Some k')" and "k' \<noteq> []"
    and "client_view env k = client_view env' k'"
    and "st_text_area env' = st_text_area env" and "st_button env' = st_button env"
  shows "(\<exists>rest.
            trace (main env) = page_head @
              [Invoke [] (Secrets_get key_name), Invoke [] (Construct k)] @ rest \<and>
            trace (main env') = page_head @
              [Invoke [] (Secrets_get key_name), Invoke [] (Construct k')] @ rest) \<and>
         rendered (trace (main env)) = rendered (trace (main env')) \<and>
         escaped (main env) = escaped (main env')"
proof -
  from assms(5-7) obtain b where w: "with_key env k = emit [Invoke [] (Construct k)] b"
    and w': "with_key env' k' = emit [Invoke [] (Construct k')] b"
    using with_key_same_client by blast
  define rest where "rest = fst b @
    (case snd b of None \<Rightarrow> [] | Some e \<Rightarrow> if is_Exception e then fst (handler e) else [])"
  from assms(1,2) w
  have t: "fst (try_body env) = [Invoke [] (Secrets_get key_name), Invoke [] (Construct k)] @ fst b"
    and s: "snd (try_body env) = snd b"
    by (simp_all add: try_body_def emit_def)
  from assms(3,4) w'
  have t': "fst (try_body env') = [Invoke [] (Secrets_get key_name), Invoke [] (Construct k')] @ fst b"
    and s': "snd (try_body env') = snd b"
    by (simp_all add: try_body_def emit_def)
  have m: "trace (main env) = page_head @
      [Invoke [] (Secrets_get key_name), Invoke [] (Construct k)] @ rest"
    by (simp add: trace_main t s rest_def)
  have m': "trace (main env') = page_head @
      [Invoke [] (Secrets_get key_name), Invoke [] (Construct k')] @ rest"
    by (simp add: trace_main t' s' rest_def)
  have "rendered (trace (main env)) = rendered (trace (main env'))"
    unfolding m m' rendered_append by (simp add: rendered_def)
  moreover have "escaped (main env) = escaped (main env')"
    by (simp add: escaped_main s s')
  ultimately show ?thesis using m m' by blast
qed

theorem key_value_witness:
  "some_key \<noteq> other_key \<and>
   secrets_get hi_env key_name = Inr (Some some_key) \<and>
   secrets_get other_key_env key_name = Inr (Some other_key) \<and>
   construct_calls (trace (main hi_env)) = [some_key] \<and>
   construct_calls (trace (main other_key_env)) = [other_key] \<and>
   rendered (trace (main hi_env)) = rendered (trace (main other_key_env)) \<and>
   escaped (main hi_env) = escaped (main other_key_env)"
proof -
  have h: "secrets_get hi_env key_name = Inr (Some some_key)" "some_key \<noteq> []"
    "secrets_get other_key_env key_name = Inr (Some other_key)" "other_key \<noteq> []"
    "client_view hi_env some_key = client_view other_key_env other_key"
    "st_text_area other_key_env = st_text_area hi_env"
    "st_button other_key_env = st_button hi_env"
    by (simp_all add: hi_env_def other_key_env_def client_view_def stub_defs)
  have d: "some_key \<noteq> other_key"
    by (simp add: some_key_def other_key_def ascii_def)
  have g: "secrets_get hi_env key_name = Inr (Some some_key)" "some_key \<noteq> []"
    "GroqLLM hi_env some_key = Inr ()" "is_available hi_env () = Inr True"
    "button_pressed hi_env" "strip (user_prompt hi_env) \<noteq> []"
    "generate hi_env () (user_prompt hi_env) = Inr hello_response"
    by (simp_all add: hi_env_def stub_defs)
  have g': "secrets_get other_key_env key_name = Inr (Some other_key)" "other_key \<noteq> []"
    "GroqLLM other_key_env other_key = Inr ()" "is_available other_key_env () = Inr True"
    "button_pressed other_key_env" "strip (user_prompt other_key_env) \<noteq> []"
    "generate other_key_env () (user_prompt other_key_env) = Inr hello_response"
    by (simp_all add: other_key_env_def stub_defs)
  have c: "construct_calls (trace (main hi_env)) = [some_key]"
    using main_generate_returned [OF g]
    by (simp add: observer_defs col2_block_def implementation_block_def)
  have c': "construct_calls (trace (main other_key_env)) = [other_key]"
    using main_generate_returned [OF g']
    by (simp add: observer_defs col2_block_def implementation_block_def)
  from key_value_not_displayed [OF h] h(1,3) d c c' show ?thesis by blast
qed

end
